theory Spec2Isabelle
  imports Main "HOL-Library.Word" "HOL-Library.Signed_Division"
begin

unbundle bit_operations_syntax

section \<open>Machine integers of the firmware\<close>

type_synonym u8 = "8 word"
type_synonym u16 = "16 word"
type_synonym u32 = "32 word"
type_synonym u64 = "64 word"
type_synonym s16 = "16 word"
type_synonym s32 = "32 word"

text \<open>
  Sums and products of \<open>int\<close> are 32-bit words, so a signed overflow wraps
  around as it does on the two's complement target.  C's \<open>/\<close> on \<open>int\<close>
  truncates towards zero: the operands are read as two's complement, divided
  as integers, and the quotient is stored back in 32 bits.  Every divisor in
  the source is a non-zero constant, except the two that are shown to be
  non-zero below (\<open>rms + 1\<close> and \<open>power\<close>).
\<close>

definition cdiv32 :: "s32 \<Rightarrow> s32 \<Rightarrow> s32" where
  "cdiv32 a b = word_of_int (sint a sdiv sint b)"

section \<open>Objects as byte arrays\<close>

text \<open>
  A C object is a list of bytes of the object's size.  A load or a store that
  does not lie inside the object is undefined behaviour in C; here it is the
  error \<open>OutOfBounds off n\<close> (\<open>n\<close> bytes accessed at offset \<open>off\<close>).
\<close>

datatype error = OutOfBounds nat nat

definition le_bytes :: "nat \<Rightarrow> 'a::len word \<Rightarrow> u8 list" where
  "le_bytes n w = map (\<lambda>i. ucast (drop_bit (8 * i) w)) [0..<n]"

definition store_bytes :: "u8 list \<Rightarrow> nat \<Rightarrow> u8 list \<Rightarrow> error + u8 list" where
  "store_bytes obj off bs =
     (if off + length bs \<le> length obj
      then Inr (take off obj @ bs @ drop (off + length bs) obj)
      else Inl (OutOfBounds off (length bs)))"

definition load_bytes :: "u8 list \<Rightarrow> nat \<Rightarrow> nat \<Rightarrow> error + u8 list" where
  "load_bytes obj off n =
     (if off + n \<le> length obj then Inr (take n (drop off obj))
      else Inl (OutOfBounds off n))"

fun of_le_bytes :: "u8 list \<Rightarrow> 'a::len word" where
  "of_le_bytes [] = 0"
| "of_le_bytes (b # bs) = ucast b OR push_bit 8 (of_le_bytes bs)"

definition load_u8 :: "u8 list \<Rightarrow> nat \<Rightarrow> error + u8" where
  "load_u8 obj off = map_sum id of_le_bytes (load_bytes obj off 1)"

definition load_u32 :: "u8 list \<Rightarrow> nat \<Rightarrow> error + u32" where
  "load_u32 obj off = map_sum id of_le_bytes (load_bytes obj off 4)"

definition bind_err :: "error + 'a \<Rightarrow> ('a \<Rightarrow> error + 'b) \<Rightarrow> error + 'b" where
  "bind_err m f = (case m of Inl e \<Rightarrow> Inl e | Inr x \<Rightarrow> f x)"


section \<open>The message envelope and the statistics record\<close>

text \<open>
  \<open>enum ipc_msg_type\<close> and \<open>enum workload_type\<close>.  A variable of the enumeration
  type holds whatever integer is assigned to it, so \<open>current_workload\<close> is a
  32-bit value and the enumerators are constants.
\<close>

definition IPC_MSG_STATS :: u8 where "IPC_MSG_STATS = 1"
definition IPC_MSG_SET_WORKLOAD :: u8 where "IPC_MSG_SET_WORKLOAD = 2"
definition IPC_MSG_HEARTBEAT :: u8 where "IPC_MSG_HEARTBEAT = 3"
definition IPC_MSG_AUDIO_DATA :: u8 where "IPC_MSG_AUDIO_DATA = 4"

definition WORKLOAD_IDLE :: u32 where "WORKLOAD_IDLE = 0"
definition WORKLOAD_MATRIX_MULT :: u32 where "WORKLOAD_MATRIX_MULT = 1"
definition WORKLOAD_SORTING :: u32 where "WORKLOAD_SORTING = 2"
definition WORKLOAD_FFT_SIM :: u32 where "WORKLOAD_FFT_SIM = 3"
definition WORKLOAD_CRYPTO_SIM :: u32 where "WORKLOAD_CRYPTO_SIM = 4"
definition WORKLOAD_MIXED :: u32 where "WORKLOAD_MIXED = 5"
definition WORKLOAD_AUDIO_PIPELINE :: u32 where "WORKLOAD_AUDIO_PIPELINE = 6"
definition WORKLOAD_AUDIO_PIPELINE_AEC :: u32 where "WORKLOAD_AUDIO_PIPELINE_AEC = 7"
definition WORKLOAD_PROXIMITY_VAD :: u32 where "WORKLOAD_PROXIMITY_VAD = 8"
definition WORKLOAD_CHEST_RESONANCE :: u32 where "WORKLOAD_CHEST_RESONANCE = 9"
definition WORKLOAD_CLOTHING_RUSTLE :: u32 where "WORKLOAD_CLOTHING_RUSTLE = 10"
definition WORKLOAD_SPATIAL_NOISE_CANCEL :: u32 where "WORKLOAD_SPATIAL_NOISE_CANCEL = 11"
definition WORKLOAD_WIND_NOISE_REDUCTION :: u32 where "WORKLOAD_WIND_NOISE_REDUCTION = 12"
definition WORKLOAD_NECKLACE_FULL :: u32 where "WORKLOAD_NECKLACE_FULL = 13"

definition RISCV_FREQ_MHZ :: nat where "RISCV_FREQ_MHZ = 128"

text \<open>
  Both structures are declared \<open>__packed\<close>: the fields follow each other
  without padding, so a field's offset is the sum of the sizes before it.
  \<open>struct ipc_message\<close> is \<open>type\<close>, \<open>workload\<close>, \<open>reserved\<close>, \<open>data[5]\<close>;
  \<open>struct stats_data\<close> is \<open>total_cycles\<close>, \<open>iterations\<close>, \<open>mips\<close>,
  \<open>workload_type\<close>, \<open>cpu_pct\<close>.
\<close>

definition ipc_message_fields :: "nat list" where
  "ipc_message_fields = [1, 1, 2, 4 * 5]"

definition stats_data_fields :: "nat list" where
  "stats_data_fields = [8, 4, 4, 4, 4]"

definition packed_sizeof :: "nat list \<Rightarrow> nat" where
  "packed_sizeof fs = sum_list fs"

definition packed_offsetof :: "nat list \<Rightarrow> nat \<Rightarrow> nat" where
  "packed_offsetof fs i = sum_list (take i fs)"

definition msg_type_off :: nat where "msg_type_off = packed_offsetof ipc_message_fields 0"
definition msg_workload_off :: nat where "msg_workload_off = packed_offsetof ipc_message_fields 1"
definition msg_reserved_off :: nat where "msg_reserved_off = packed_offsetof ipc_message_fields 2"
definition msg_data_off :: nat where "msg_data_off = packed_offsetof ipc_message_fields 3"

text \<open>\<open>msg.data[i]\<close> as a byte offset into the message.\<close>

definition msg_data_idx :: "nat \<Rightarrow> nat" where
  "msg_data_idx i = msg_data_off + 4 * i"

text \<open>The fields of \<open>struct stats_data\<close>, by position in the declaration.\<close>

definition stats_total_cycles_off :: nat where "stats_total_cycles_off = packed_offsetof stats_data_fields 0"
definition stats_iterations_off :: nat where "stats_iterations_off = packed_offsetof stats_data_fields 1"
definition stats_mips_off :: nat where "stats_mips_off = packed_offsetof stats_data_fields 2"
definition stats_workload_type_off :: nat where "stats_workload_type_off = packed_offsetof stats_data_fields 3"
definition stats_cpu_pct_off :: nat where "stats_cpu_pct_off = packed_offsetof stats_data_fields 4"

text \<open>\<open>memset(&msg, 0, sizeof(msg))\<close> on a fresh \<open>struct ipc_message\<close>.\<close>

definition zeroed_msg :: "u8 list" where
  "zeroed_msg = replicate (packed_sizeof ipc_message_fields) 0"

section \<open>State of the compute core\<close>

text \<open>
  The file-scope variables of the compute core's program, and the two
  function-scope \<open>static\<close> arrays of \<open>workload_audio_pipeline_aec\<close>, which
  live as long as the program does.
\<close>

record flpr_state =
  current_workload :: u32
  total_work_cycles :: u64
  work_iterations :: u32
  work_result :: u32
  aec_filter :: "s16 list"
  far_end_buffer :: "s16 list"

definition AEC_FILTER_TAPS :: nat where "AEC_FILTER_TAPS = 256"
definition FRAME_SIZE :: nat where "FRAME_SIZE = 128"
definition NUM_MICS :: nat where "NUM_MICS = 3"

text \<open>Static storage is zero at program start; the initialisers are as declared.\<close>

definition initial_state :: flpr_state where
  "initial_state = \<lparr> current_workload = WORKLOAD_IDLE, total_work_cycles = 0,
     work_iterations = 0, work_result = 0,
     aec_filter = replicate AEC_FILTER_TAPS 0,
     far_end_buffer = replicate AEC_FILTER_TAPS 0 \<rparr>"

section \<open>The receive callback of the compute core\<close>

text \<open>
  \<open>ep_recv(data, len, priv)\<close> casts \<open>data\<close> to a message pointer and reads the
  fields it needs; \<open>len\<close> is only printed.  The \<open>printk\<close> lines are returned as
  a log.
\<close>

datatype log_line =
    LogReceived u8 nat
  | LogWorkloadChanged u32
  | LogUnknownType u8
  | LogRiscvStats u32 u32 u32

definition ep_recv :: "u8 list \<Rightarrow> flpr_state \<Rightarrow> error + (log_line list \<times> flpr_state)" where
  "ep_recv data st =
     bind_err (load_u8 data msg_type_off) (\<lambda>ty.
       if ty = IPC_MSG_SET_WORKLOAD then
         bind_err (load_u8 data msg_workload_off) (\<lambda>w.
           Inr ([LogReceived ty (length data), LogWorkloadChanged (ucast w)],
                st\<lparr> current_workload := ucast w,
                    total_work_cycles := 0,
                    work_iterations := 0 \<rparr>))
       else Inr ([LogReceived ty (length data), LogUnknownType ty], st))"

section \<open>Dispatch\<close>

text \<open>
  \<open>execute_workload\<close> switches on \<open>current_workload\<close>.  Each case calls one
  workload routine and returns its cycle estimate; \<open>WORKLOAD_IDLE\<close> and
  \<open>default\<close> share one body, \<open>k_sleep(K_MSEC(100)); return 0;\<close>.
\<close>

datatype routine =
    R_matrix_mult | R_sorting | R_fft_sim | R_crypto_sim | R_mixed
  | R_audio_pipeline | R_audio_pipeline_aec | R_proximity_vad
  | R_chest_resonance | R_clothing_rustle | R_spatial_noise_cancel
  | R_wind_noise_reduction | R_necklace_full

datatype dispatch = Call routine | SleepReturn nat u64

definition execute_workload :: "u32 \<Rightarrow> dispatch" where
  "execute_workload w =
     (if w = WORKLOAD_MATRIX_MULT then Call R_matrix_mult
      else if w = WORKLOAD_SORTING then Call R_sorting
      else if w = WORKLOAD_FFT_SIM then Call R_fft_sim
      else if w = WORKLOAD_CRYPTO_SIM then Call R_crypto_sim
      else if w = WORKLOAD_MIXED then Call R_mixed
      else if w = WORKLOAD_AUDIO_PIPELINE then Call R_audio_pipeline
      else if w = WORKLOAD_AUDIO_PIPELINE_AEC then Call R_audio_pipeline_aec
      else if w = WORKLOAD_PROXIMITY_VAD then Call R_proximity_vad
      else if w = WORKLOAD_CHEST_RESONANCE then Call R_chest_resonance
      else if w = WORKLOAD_CLOTHING_RUSTLE then Call R_clothing_rustle
      else if w = WORKLOAD_SPATIAL_NOISE_CANCEL then Call R_spatial_noise_cancel
      else if w = WORKLOAD_WIND_NOISE_REDUCTION then Call R_wind_noise_reduction
      else if w = WORKLOAD_NECKLACE_FULL then Call R_necklace_full
      else SleepReturn 100 0)"

text \<open>
  One turn of the loop in \<open>workload_thread\<close>.  The routines are a parameter
  \<open>run\<close>: what a routine returns and what it does to the state.  The result
  also says for how many milliseconds the turn slept.
\<close>

definition workload_thread_iter ::
  "(routine \<Rightarrow> flpr_state \<Rightarrow> u64 \<times> flpr_state) \<Rightarrow> flpr_state \<Rightarrow> nat \<times> flpr_state" where
  "workload_thread_iter run st =
     (if current_workload st \<noteq> WORKLOAD_IDLE then
        (case execute_workload (current_workload st) of
           Call r \<Rightarrow>
             (let (cycles, st1) = run r st
              in (0, st1\<lparr> total_work_cycles := total_work_cycles st1 + cycles,
                         work_iterations := work_iterations st1 + 1 \<rparr>))
         | SleepReturn ms cycles \<Rightarrow>
             (ms, st\<lparr> total_work_cycles := total_work_cycles st + cycles,
                      work_iterations := work_iterations st + 1 \<rparr>))
      else (100, st))"

section \<open>Telemetry\<close>

text \<open>
  The arithmetic of one turn of \<open>stats_thread\<close>: the deltas against the
  previous snapshot, the MIPS estimate and the CPU percentage.  \<open>cycle_delta\<close>
  and \<open>instructions\<close> are \<open>uint64_t\<close>; \<open>mips\<close> and \<open>cpu_pct\<close> are \<open>uint32_t\<close>.
\<close>

definition stats_mips :: "u64 \<Rightarrow> u32" where
  "stats_mips cycle_delta =
     (let instructions = (cycle_delta * 10) div 15
      in ucast (instructions div 1000000))"

definition stats_cpu_pct :: "u32 \<Rightarrow> u32" where
  "stats_cpu_pct mips =
     (let cpu_pct = (mips * 100) div of_nat RISCV_FREQ_MHZ
      in if cpu_pct > 100 then 100 else cpu_pct)"

text \<open>
  The message of \<open>stats_thread\<close>: the message is cleared, \<open>type\<close> and
  \<open>workload\<close> are set, and the five fields are stored through
  \<open>stats = (struct stats_data *)msg.data\<close>, in the order of the source.
\<close>

definition stats_store :: "u8 list \<Rightarrow> nat \<Rightarrow> u8 list \<Rightarrow> error + u8 list" where
  "stats_store msg field_off bs = store_bytes msg (msg_data_off + field_off) bs"

definition stats_msg :: "u32 \<Rightarrow> u64 \<Rightarrow> u32 \<Rightarrow> u32 \<Rightarrow> u32 \<Rightarrow> error + u8 list" where
  "stats_msg cur cycle_delta iter_delta mips cpu_pct =
     bind_err (store_bytes zeroed_msg msg_type_off (le_bytes 1 IPC_MSG_STATS)) (\<lambda>m.
     bind_err (store_bytes m msg_workload_off (le_bytes 1 (ucast cur :: u8))) (\<lambda>m.
     bind_err (stats_store m stats_total_cycles_off (le_bytes 8 cycle_delta)) (\<lambda>m.
     bind_err (stats_store m stats_iterations_off (le_bytes 4 iter_delta)) (\<lambda>m.
     bind_err (stats_store m stats_mips_off (le_bytes 4 mips)) (\<lambda>m.
     bind_err (stats_store m stats_workload_type_off (le_bytes 4 cur)) (\<lambda>m.
     stats_store m stats_cpu_pct_off (le_bytes 4 cpu_pct)))))))"

text \<open>
  One turn of \<open>stats_thread\<close> after the sleep: \<open>prev_cycles\<close> and
  \<open>prev_iterations\<close> are the thread's locals; the result is the message handed
  to \<open>ipc_service_send\<close> and the new locals.
\<close>

definition stats_thread_iter ::
  "flpr_state \<Rightarrow> u64 \<times> u32 \<Rightarrow> (error + u8 list) \<times> (u64 \<times> u32)" where
  "stats_thread_iter st prev =
     (let cycle_delta = total_work_cycles st - fst prev;
          iter_delta = work_iterations st - snd prev;
          mips = stats_mips cycle_delta;
          cpu_pct = stats_cpu_pct mips
      in (stats_msg (current_workload st) cycle_delta iter_delta mips cpu_pct,
          (total_work_cycles st, work_iterations st)))"


section \<open>The reporting core\<close>

text \<open>
  The variables of the reporting core's program that its receive callback
  writes, and \<open>ipc_ready\<close>.
\<close>

record cpuapp_state =
  riscv_mips :: u32
  riscv_workload :: u32
  riscv_cpu_pct :: u32
  audio_frames_received :: u32
  audio_voice_detected :: u32
  ipc_ready :: bool

text \<open>
  \<open>on_riscv_workload_write\<close>: a one-byte write is the workload selector.  With
  the endpoint ready (at once or within the wait of twenty sleeps, which is the
  argument \<open>ready\<close>) the byte is sent as it is in a cleared message of kind
  \<open>IPC_MSG_SET_WORKLOAD\<close>; the result is the message handed to
  \<open>ipc_service_send\<close>, if any.
\<close>

definition on_riscv_workload_write :: "u8 list \<Rightarrow> bool \<Rightarrow> (error + u8 list) option" where
  "on_riscv_workload_write buf ready =
     (if length buf = 1 then
        (let workload = hd buf in
         if \<not> ready then None
         else Some
           (bind_err (store_bytes zeroed_msg msg_type_off (le_bytes 1 IPC_MSG_SET_WORKLOAD)) (\<lambda>m.
            store_bytes m msg_workload_off (le_bytes 1 workload))))
      else None)"

text \<open>
  The reporting core's \<open>ep_recv\<close>.  For \<open>IPC_MSG_STATS\<close> it reads \<open>mips\<close>,
  \<open>workload_type\<close> and \<open>cpu_pct\<close> through \<open>(struct stats_data *)msg->data\<close>;
  for \<open>IPC_MSG_AUDIO_DATA\<close> it counts the frame, reads \<open>data[0]\<close> to
  \<open>data[3]\<close> and counts a voice frame when \<open>data[2]\<close> exceeds 1000.  Any other
  kind falls through both tests.
\<close>

definition cpuapp_ep_recv ::
  "u8 list \<Rightarrow> cpuapp_state \<Rightarrow> error + (log_line list \<times> cpuapp_state)" where
  "cpuapp_ep_recv data st =
     bind_err (load_u8 data msg_type_off) (\<lambda>ty.
       if ty = IPC_MSG_STATS then
         bind_err (load_u32 data (msg_data_off + stats_mips_off)) (\<lambda>mips.
         bind_err (load_u32 data (msg_data_off + stats_workload_type_off)) (\<lambda>wl.
         bind_err (load_u32 data (msg_data_off + stats_cpu_pct_off)) (\<lambda>pct.
           Inr ([LogReceived ty (length data), LogRiscvStats wl mips pct],
                st\<lparr> riscv_mips := mips, riscv_workload := wl, riscv_cpu_pct := pct \<rparr>))))
       else if ty = IPC_MSG_AUDIO_DATA then
         (let st1 = st\<lparr> audio_frames_received := audio_frames_received st + 1 \<rparr> in
          bind_err (load_u32 data (msg_data_idx 0)) (\<lambda>d0.
          bind_err (load_u32 data (msg_data_idx 1)) (\<lambda>d1.
          bind_err (load_u32 data (msg_data_idx 2)) (\<lambda>frame_energy.
          bind_err (load_u32 data (msg_data_idx 3)) (\<lambda>zero_crossings.
            Inr ([LogReceived ty (length data)],
                 if frame_energy > 1000
                 then st1\<lparr> audio_voice_detected := audio_voice_detected st1 + 1 \<rparr>
                 else st1))))))
       else Inr ([LogReceived ty (length data)], st))"


section \<open>The audio pipeline, stages 1 to 5\<close>

text \<open>
  An \<open>int16_t\<close> array is a list of 16-bit words read as two's complement.  In
  an expression an \<open>int16_t\<close> operand is promoted to \<open>int\<close> (\<open>scast\<close> to 32
  bits), the arithmetic is done in 32 bits, and an assignment to an \<open>int16_t\<close>
  keeps the low 16 bits (\<open>ucast\<close> to 16 bits).

  Stage 1, the simulated ADC: \<open>(i * (mic + 1) * 37 + work_result) & 0xFFF\<close>,
  computed in \<open>uint32_t\<close> because \<open>work_result\<close> is one.
\<close>

definition adc_read :: "u32 \<Rightarrow> nat \<Rightarrow> nat \<Rightarrow> s16" where
  "adc_read wr mic i = ucast ((of_nat (i * (mic + 1) * 37) + wr) AND 0xFFF)"

definition read_mics :: "u32 \<Rightarrow> s16 list list" where
  "read_mics wr = map (\<lambda>mic. map (adc_read wr mic) [0..<FRAME_SIZE]) [0..<NUM_MICS]"

text \<open>
  Stage 2 for one microphone.  \<open>dc_offset\<close> is the truncated mean.  The loop
  starts at index 2, so \<open>filtered_data[mic][0]\<close> and \<open>[1]\<close> keep what the
  stack held: \<open>junk\<close> is the array before the loop.  The first value given to
  \<open>filtered\<close> is overwritten before it is read and is left out.
\<close>

definition dc_offset :: "s16 list \<Rightarrow> s16" where
  "dc_offset row =
     ucast (cdiv32 (fold (\<lambda>i dc_sum. dc_sum + scast (row ! i)) [0..<FRAME_SIZE] 0)
                   (of_nat FRAME_SIZE))"

definition fir_tap :: "s16 list \<Rightarrow> s16 \<Rightarrow> nat \<Rightarrow> s16" where
  "fir_tap row dc i =
     (let filtered = cdiv32 (scast (row ! (i - 2)) + 2 * scast (row ! (i - 1)) + scast (row ! i)) 4
      in ucast (filtered - scast dc))"

definition preprocess :: "s16 list \<Rightarrow> s16 list \<Rightarrow> s16 list" where
  "preprocess row junk =
     fold (\<lambda>i fd. fd[i := fir_tap row (dc_offset row) i]) [2..<FRAME_SIZE] junk"

text \<open>Stage 3: delay-and-sum over the three filtered channels.\<close>

definition beamform :: "s16 list list \<Rightarrow> s16 list" where
  "beamform fd =
     map (\<lambda>i. let delay_mic1 = (if 2 \<le> i then i - 2 else 0);
                   delay_mic2 = (if 2 \<le> i then i - 2 else 0);
                   sum = 0 + scast (fd ! 0 ! i) * 2;
                   sum = sum + scast (fd ! 1 ! delay_mic1);
                   sum = sum + scast (fd ! 2 ! delay_mic2)
               in ucast (cdiv32 sum 4))
         [0..<FRAME_SIZE]"

text \<open>
  Stage 4: the noise gate with floor 100, and the energy of the gated signal,
  in one loop; then the gain.
\<close>

definition noise_gate :: "s16 \<Rightarrow> s16" where
  "noise_gate b =
     (let sample = scast b :: s32;
          magnitude = (if sample <s 0 then - sample else sample)
      in if 100 <s magnitude then ucast sample else 0)"

definition noise_suppress :: "s16 list \<Rightarrow> s16 list \<times> s32" where
  "noise_suppress bf =
     fold (\<lambda>i (po, signal_energy).
             let p = noise_gate (bf ! i)
             in (po @ [p], signal_energy + scast p * scast p))
          [0..<FRAME_SIZE] ([], 0)"

definition agc_gain :: "s32 \<Rightarrow> s16" where
  "agc_gain rms =
     (if 0 <s rms then
        (let gain = ucast (cdiv32 (2000 * 256) (rms + 1)) :: s16;
             gain = (if 512 <s gain then 512 else gain);
             gain = (if gain <s 64 then 64 else gain)
         in gain)
      else 1)"

definition apply_gain :: "s16 \<Rightarrow> s16 list \<Rightarrow> s16 list" where
  "apply_gain gain po = map (\<lambda>i. ucast (cdiv32 (scast (po ! i) * scast gain) 256)) [0..<FRAME_SIZE]"

text \<open>
  Stage 5: the energy sum and the zero crossings in one loop, the mean energy,
  and the decision.
\<close>

definition crosses_zero :: "s16 \<Rightarrow> s16 \<Rightarrow> bool" where
  "crosses_zero cur prev = ((0 \<le>s cur \<and> prev <s 0) \<or> (cur <s 0 \<and> 0 \<le>s prev))"

definition vad_loop :: "s16 list \<Rightarrow> s32 \<times> s32" where
  "vad_loop po =
     fold (\<lambda>i (frame_energy, zero_crossings).
             (frame_energy + scast (po ! i) * scast (po ! i),
              if 0 < i \<and> crosses_zero (po ! i) (po ! (i - 1))
              then zero_crossings + 1 else zero_crossings))
          [0..<FRAME_SIZE] (0, 0)"

definition voice_detected :: "s32 \<Rightarrow> s32 \<Rightarrow> bool" where
  "voice_detected frame_energy zero_crossings =
     (1000 <s frame_energy \<and> 10 <s zero_crossings \<and> zero_crossings <s 80)"

text \<open>
  Stages 1 to 5 are the same text in \<open>workload_audio_pipeline\<close> and in
  \<open>workload_audio_pipeline_aec\<close>.  The result is \<open>processed_output\<close>,
  \<open>rms\<close>, \<open>gain\<close>, \<open>frame_energy\<close> after the division and \<open>zero_crossings\<close>.
  \<open>junk\<close> is \<open>filtered_data\<close> as the stack holds it on entry, an array of
  \<open>NUM_MICS\<close> rows of \<open>FRAME_SIZE\<close> samples.  Every index the source uses
  is inside its array.
\<close>

record front_end =
  processed_output :: "s16 list"
  rms :: s32
  gain :: s16
  frame_energy :: s32
  zero_crossings :: s32

definition stages_1_to_5 :: "s16 list list \<Rightarrow> u32 \<Rightarrow> front_end" where
  "stages_1_to_5 junk wr =
     (let mic_data = read_mics wr;
          filtered_data = map (\<lambda>mic. preprocess (mic_data ! mic) (junk ! mic)) [0..<NUM_MICS];
          beamformed_output = beamform filtered_data;
          (gated, signal_energy) = noise_suppress beamformed_output;
          rms = cdiv32 signal_energy (of_nat FRAME_SIZE);
          gain = agc_gain rms;
          po = apply_gain gain gated;
          (energy_sum, zc) = vad_loop po
      in \<lparr> processed_output = po, rms = rms, gain = gain,
           frame_energy = cdiv32 energy_sum (of_nat FRAME_SIZE),
           zero_crossings = zc \<rparr>)"

section \<open>The audio data message\<close>

text \<open>
  \<open>(a & 0xFFFF) | ((b & 0xFFFF) << 16)\<close> on two samples.  The message is
  cleared, then \<open>type\<close>, \<open>workload\<close> and \<open>data[0]\<close> to \<open>data[3]\<close> are
  assigned; the AEC routine assigns \<open>data[4]\<close> as well.
\<close>

definition pack_samples :: "s16 \<Rightarrow> s16 \<Rightarrow> u32" where
  "pack_samples a b = ((scast a AND 0xFFFF) OR push_bit 16 (scast b AND 0xFFFF))"

definition audio_msg_common :: "u32 \<Rightarrow> s16 list \<Rightarrow> s32 \<Rightarrow> s32 \<Rightarrow> error + u8 list" where
  "audio_msg_common wl out fe zc =
     bind_err (store_bytes zeroed_msg msg_type_off (le_bytes 1 IPC_MSG_AUDIO_DATA)) (\<lambda>m.
     bind_err (store_bytes m msg_workload_off (le_bytes 1 (ucast wl :: u8))) (\<lambda>m.
     bind_err (store_bytes m (msg_data_idx 0) (le_bytes 4 (pack_samples (out ! 0) (out ! 1)))) (\<lambda>m.
     bind_err (store_bytes m (msg_data_idx 1) (le_bytes 4 (pack_samples (out ! 2) (out ! 3)))) (\<lambda>m.
     bind_err (store_bytes m (msg_data_idx 2) (le_bytes 4 fe)) (\<lambda>m.
     store_bytes m (msg_data_idx 3) (le_bytes 4 zc))))))"

definition audio_pipeline_msg :: "s16 list \<Rightarrow> s32 \<Rightarrow> s32 \<Rightarrow> error + u8 list" where
  "audio_pipeline_msg out fe zc = audio_msg_common WORKLOAD_AUDIO_PIPELINE out fe zc"

definition audio_pipeline_aec_msg :: "s16 list \<Rightarrow> s32 \<Rightarrow> s32 \<Rightarrow> bool \<Rightarrow> error + u8 list" where
  "audio_pipeline_aec_msg out fe zc double_talk =
     bind_err (audio_msg_common WORKLOAD_AUDIO_PIPELINE_AEC out fe zc) (\<lambda>m.
     store_bytes m (msg_data_idx 4) (le_bytes 4 (if double_talk then 1 else 0 :: u32)))"

section \<open>The routine without echo cancellation\<close>

text \<open>
  Step 6 of \<open>workload_audio_pipeline\<close>, the transfer: a message is built and
  handed to \<open>ipc_service_send\<close> only when voice is detected (in a build with
  the \<open>ipc0\<close> node; without it no message exists at all).
\<close>

definition transfer_audio :: "front_end \<Rightarrow> (error + u8 list) option" where
  "transfer_audio f =
     (if voice_detected (frame_energy f) (zero_crossings f)
      then Some (audio_pipeline_msg (processed_output f) (frame_energy f) (zero_crossings f))
      else None)"

text \<open>
  The result is the cycle estimate \<open>(end_us - start_us) * RISCV_FREQ_MHZ\<close>,
  the message sent, if any, and the state with the new \<open>work_result\<close>.
\<close>

definition workload_audio_pipeline ::
  "s16 list list \<Rightarrow> u64 \<Rightarrow> u64 \<Rightarrow> flpr_state \<Rightarrow> u64 \<times> (error + u8 list) option \<times> flpr_state" where
  "workload_audio_pipeline junk start_us end_us st =
     (let f = stages_1_to_5 junk (work_result st);
          voice = voice_detected (frame_energy f) (zero_crossings f)
      in ((end_us - start_us) * of_nat RISCV_FREQ_MHZ,
          transfer_audio f,
          st\<lparr> work_result := (if voice then scast (processed_output f ! 0) else 0) \<rparr>))"

section \<open>The routine with echo cancellation\<close>

text \<open>
  Stage 6.  The far-end reference overwrites the first \<open>FRAME_SIZE\<close> entries
  of \<open>far_end_buffer\<close>.  The loops over \<open>k\<close> run while
  \<open>k < AEC_FILTER_TAPS && k <= n\<close>.
\<close>

definition far_end_sample :: "u32 \<Rightarrow> nat \<Rightarrow> s16" where
  "far_end_sample wr i = ucast ((of_nat (i * 29) + wr) AND 0x7FF)"

definition simulate_far_end :: "u32 \<Rightarrow> s16 list \<Rightarrow> s16 list" where
  "simulate_far_end wr fe =
     fold (\<lambda>i fe. fe[i := far_end_sample wr i]) [0..<min FRAME_SIZE AEC_FILTER_TAPS] fe"

definition taps_upto :: "nat \<Rightarrow> nat list" where
  "taps_upto n = [0..<min AEC_FILTER_TAPS (Suc n)]"

definition echo_est :: "s16 list \<Rightarrow> s16 list \<Rightarrow> nat \<Rightarrow> s32" where
  "echo_est flt fe n =
     fold (\<lambda>k est. est + cdiv32 (scast (flt ! k) * scast (fe ! (n - k))) 256) (taps_upto n) 0"

definition nlms_power :: "s16 list \<Rightarrow> nat \<Rightarrow> s32" where
  "nlms_power fe n =
     (let power = fold (\<lambda>k power. let val = scast (fe ! (n - k)) :: s32
                                   in power + cdiv32 (val * val) 256) (taps_upto n) 0
      in cdiv32 power (of_nat AEC_FILTER_TAPS) + 1)"

text \<open>
  The two limit tests after \<open>aec_filter[k] += update\<close>, in the order of the
  source, and the update of one tap.
\<close>

definition limit_coeff :: "s16 \<Rightarrow> s16" where
  "limit_coeff c =
     (let c = (if 8192 <s c then 8192 else c);
          c = (if c <s - 8192 then - 8192 else c)
      in c)"

definition update_tap :: "s32 \<Rightarrow> s16 list \<Rightarrow> nat \<Rightarrow> nat \<Rightarrow> s16 list \<Rightarrow> s16 list" where
  "update_tap update_factor fe n k flt =
     (let update = cdiv32 (update_factor * scast (fe ! (n - k))) 256;
          c = ucast (scast (flt ! k) + update) :: s16
      in flt[k := limit_coeff c])"

definition nlms_update :: "s16 \<Rightarrow> s16 list \<Rightarrow> nat \<Rightarrow> s16 list \<Rightarrow> s16 list" where
  "nlms_update err fe n flt =
     (let power = nlms_power fe n;
          mu = 16 :: s16;
          update_factor = cdiv32 (scast mu * scast err) power
      in fold (update_tap update_factor fe n) (taps_upto n) flt)"

text \<open>
  One turn of the loop over \<open>n\<close>: the echo estimate, the error sample, and on
  every second sample the update.  The loop state is the filter and the error
  signal written so far.
\<close>

definition aec_sample :: "s16 list \<Rightarrow> s16 list \<Rightarrow> nat \<Rightarrow> s16 list \<times> s16 list \<Rightarrow> s16 list \<times> s16 list" where
  "aec_sample po fe n = (\<lambda>(flt, error_signal).
     (let echo_estimate_n = ucast (echo_est flt fe n) :: s16;
          err = ucast ((scast (po ! n) :: s32) - scast echo_estimate_n) :: s16
      in ((if n mod 2 = 0 then nlms_update err fe n flt else flt), error_signal @ [err])))"

definition aec_loop :: "s16 list \<Rightarrow> s16 list \<Rightarrow> s16 list \<Rightarrow> s16 list \<times> s16 list" where
  "aec_loop po fe flt = fold (aec_sample po fe) [0..<FRAME_SIZE] (flt, [])"

text \<open>Double-talk detection and residual suppression.\<close>

definition far_end_energy :: "s16 list \<Rightarrow> s32" where
  "far_end_energy fe =
     cdiv32 (fold (\<lambda>i e. e + scast (fe ! i) * scast (fe ! i)) [0..<FRAME_SIZE] 0)
            (of_nat FRAME_SIZE)"

definition double_talk :: "s32 \<Rightarrow> s32 \<Rightarrow> bool" where
  "double_talk near_end_energy far_energy = (500 <s near_end_energy \<and> 500 <s far_energy)"

definition suppress_residual :: "s16 \<Rightarrow> s16" where
  "suppress_residual e =
     (let suppressed = scast e :: s32;
          magnitude = (if suppressed <s 0 then - suppressed else suppressed);
          suppressed = (if magnitude <s 50 then cdiv32 suppressed 2 else suppressed)
      in ucast suppressed)"

definition final_output :: "bool \<Rightarrow> s16 list \<Rightarrow> s16 list \<Rightarrow> s16 list" where
  "final_output dt po error_signal =
     map (\<lambda>i. if dt then po ! i else suppress_residual (error_signal ! i)) [0..<FRAME_SIZE]"

text \<open>Step 7 of \<open>workload_audio_pipeline_aec\<close>, the transfer.\<close>

definition transfer_audio_aec :: "front_end \<Rightarrow> s16 list \<Rightarrow> bool \<Rightarrow> (error + u8 list) option" where
  "transfer_audio_aec f out dt =
     (if voice_detected (frame_energy f) (zero_crossings f)
      then Some (audio_pipeline_aec_msg out (frame_energy f) (zero_crossings f) dt)
      else None)"

definition workload_audio_pipeline_aec ::
  "s16 list list \<Rightarrow> u64 \<Rightarrow> u64 \<Rightarrow> flpr_state \<Rightarrow> u64 \<times> (error + u8 list) option \<times> flpr_state" where
  "workload_audio_pipeline_aec junk start_us end_us st =
     (let f = stages_1_to_5 junk (work_result st);
          po = processed_output f;
          voice = voice_detected (frame_energy f) (zero_crossings f);
          fe = simulate_far_end (work_result st) (far_end_buffer st);
          (flt, error_signal) = aec_loop po fe (aec_filter st);
          dt = double_talk (frame_energy f) (far_end_energy fe);
          out = final_output dt po error_signal
      in ((end_us - start_us) * of_nat RISCV_FREQ_MHZ,
          transfer_audio_aec f out dt,
          st\<lparr> work_result := (if voice then scast (out ! 0) else 0),
              aec_filter := flt,
              far_end_buffer := fe \<rparr>))"

text \<open>
  Consecutive calls of the routine, as \<open>workload_thread\<close> makes them while the
  workload stays selected: each call has its own stack contents and timestamps
  and starts from the state the previous call left.
\<close>

definition aec_frames :: "(s16 list list \<times> u64 \<times> u64) list \<Rightarrow> flpr_state \<Rightarrow> flpr_state" where
  "aec_frames frames st =
     fold (\<lambda>(junk, start_us, end_us) st. snd (snd (workload_audio_pipeline_aec junk start_us end_us st)))
          frames st"

text \<open>The range the coefficients are limited to.\<close>

definition coeff_in_range :: "s16 \<Rightarrow> bool" where
  "coeff_in_range c = (- 8192 \<le> sint c \<and> sint c \<le> 8192)"

section \<open>Example inputs\<close>

text \<open>
  A state in the middle of a measurement: matrix multiplication selected, some
  cycles and iterations counted.
\<close>

definition busy_state :: flpr_state where
  "busy_state = initial_state\<lparr> current_workload := WORKLOAD_MATRIX_MULT,
     total_work_cycles := 1280, work_iterations := 10 \<rparr>"

text \<open>
  A state with the echo canceller selected and a filter that has adapted:
  the first coefficient is not zero.
\<close>

definition adapted_state :: flpr_state where
  "adapted_state = initial_state\<lparr> current_workload := WORKLOAD_AUDIO_PIPELINE_AEC,
     total_work_cycles := 2560, work_iterations := 20,
     aec_filter := (replicate AEC_FILTER_TAPS 0)[0 := 362] \<rparr>"

text \<open>A stack that happens to hold zeros where \<open>filtered_data\<close> is placed.\<close>

definition zero_stack :: "s16 list list" where
  "zero_stack = replicate NUM_MICS (replicate FRAME_SIZE 0)"

text \<open>
  The state after the first frame of the echo canceller: from the program
  start, the AEC workload is selected and the routine runs once.
\<close>

definition after_one_frame :: flpr_state where
  "after_one_frame =
     snd (snd (workload_audio_pipeline_aec zero_stack 0 1
       (initial_state\<lparr> current_workload := WORKLOAD_AUDIO_PIPELINE_AEC \<rparr>)))"

text \<open>
  A state with the echo canceller selected, at rest (\<open>work_result\<close> is zero)
  and with a value in tap 126, the last tap a frame writes.
\<close>

definition late_tap_state :: flpr_state where
  "late_tap_state = initial_state\<lparr> current_workload := WORKLOAD_AUDIO_PIPELINE_AEC,
     aec_filter := (replicate AEC_FILTER_TAPS 0)[126 := 362] \<rparr>"

text \<open>
  A filter that passes the reference through (tap 0 is 256, that is 1.0 in
  1/256 units), a constant reference, and a near-end signal equal to it: the
  echo estimate of this filter is the near-end signal.
\<close>

definition echo_filter :: "s16 list" where
  "echo_filter = (replicate AEC_FILTER_TAPS 0)[0 := 256]"

definition steady_reference :: "s16 list" where
  "steady_reference = replicate AEC_FILTER_TAPS 5"

definition steady_near_end :: "s16 list" where
  "steady_near_end = replicate FRAME_SIZE 5"

text \<open>
  The message \<open>on_riscv_workload_write\<close> sends for a selector byte: the kind,
  the byte, and zeros up to the size of the structure.
\<close>

definition set_workload_bytes :: "u8 \<Rightarrow> u8 list" where
  "set_workload_bytes w = [IPC_MSG_SET_WORKLOAD, w] @ replicate 22 0"

text \<open>The reporting core's variables as initialised at program start.\<close>

definition cpuapp_initial :: cpuapp_state where
  "cpuapp_initial = \<lparr> riscv_mips = 0, riscv_workload = 0, riscv_cpu_pct = 0,
     audio_frames_received = 0, audio_voice_detected = 0, ipc_ready = False \<rparr>"

text \<open>A front end result with the energy and zero crossings of a voiced frame.\<close>

definition voiced_front_end :: front_end where
  "voiced_front_end = \<lparr> processed_output = [300, - 300, 300, - 300] @ replicate 124 0,
     rms = 1406, gain = 363, frame_energy = 1200, zero_crossings = 20 \<rparr>"


section \<open>Layout and byte access\<close>

lemmas layout_defs = packed_sizeof_def packed_offsetof_def ipc_message_fields_def
  stats_data_fields_def msg_type_off_def msg_workload_off_def msg_reserved_off_def
  msg_data_off_def msg_data_idx_def stats_total_cycles_off_def stats_iterations_off_def
  stats_mips_off_def stats_workload_type_off_def stats_cpu_pct_off_def zeroed_msg_def

lemma load_u8_nth: "off < length data \<Longrightarrow> load_u8 data off = Inr (data ! off)"
  by (simp add: load_u8_def load_bytes_def take_Suc_conv_app_nth Suc_le_eq)

text \<open>The message the reporting core sends for a selector byte.\<close>

lemma on_riscv_workload_write_bytes:
  "on_riscv_workload_write [w] True = Some (Inr (set_workload_bytes w))"
  by (simp add: on_riscv_workload_write_def set_workload_bytes_def store_bytes_def
      bind_err_def le_bytes_def layout_defs numeral_eq_Suc)

lemma busy_state_simps:
  "current_workload busy_state = 1"
  "total_work_cycles busy_state = 1280"
  "work_iterations busy_state = 10"
  by (simp_all add: busy_state_def WORKLOAD_MATRIX_MULT_def)

text \<open>
  What the compute core's callback does with any buffer that holds the first
  two bytes: the kind byte alone decides.
\<close>

lemma ep_recv_by_kind:
  assumes "2 \<le> length data"
  shows "ep_recv data st =
     Inr (if data ! 0 = IPC_MSG_SET_WORKLOAD
          then ([LogReceived (data ! 0) (length data), LogWorkloadChanged (ucast (data ! 1))],
                st\<lparr> current_workload := ucast (data ! 1),
                    total_work_cycles := 0, work_iterations := 0 \<rparr>)
          else ([LogReceived (data ! 0) (length data), LogUnknownType (data ! 0)], st))"
proof -
  from assms have l0: "0 < length data" and l1: "1 < length data"
    by auto
  from load_u8_nth [OF l0] load_u8_nth [OF l1] show ?thesis
    by (simp add: ep_recv_def bind_err_def layout_defs)
qed

section \<open>The statistics overlay\<close>

text \<open>
  C1.  The claim is that \<open>struct stats_data\<close>, laid over \<open>msg.data\<close>, fits in
  the 20 payload bytes, so that the stores of \<open>stats_thread\<close> stay inside the
  24-byte message.  In the source the packed record is 8 + 4 + 4 + 4 + 4 = 24
  bytes long, the payload starts at byte 4 of a 24-byte message, and the last
  store, \<open>stats->cpu_pct\<close>, writes the four bytes from message offset 24 on:
  for every input the message of \<open>stats_thread\<close> is not built inside the
  object.
\<close>

theorem stats_msg_out_of_bounds:
  "packed_sizeof ipc_message_fields = 24 \<and>
   packed_sizeof stats_data_fields = 24 \<and>
   msg_data_off + stats_cpu_pct_off = 24 \<and>
   stats_msg cur cycle_delta iter_delta mips cpu_pct = Inl (OutOfBounds 24 4)"
  by (simp add: stats_msg_def stats_store_def store_bytes_def bind_err_def le_bytes_def
      layout_defs)

text \<open>
  The reading side has the same overlay: for a 24-byte statistics message the
  reporting core's callback reads \<open>stats->cpu_pct\<close> from the four bytes
  after the buffer.
\<close>

lemma cpuapp_stats_read_out_of_bounds:
  assumes "length data = 24" and "data ! 0 = IPC_MSG_STATS"
  shows "cpuapp_ep_recv data ast = Inl (OutOfBounds 24 4)"
proof -
  from assms have "load_u8 data 0 = Inr IPC_MSG_STATS"
    using load_u8_nth [of 0 data] by simp
  with assms(1) show ?thesis
    by (simp add: cpuapp_ep_recv_def bind_err_def load_u32_def load_bytes_def layout_defs)
qed

section \<open>Receiving\<close>

text \<open>
  C2, as stated: a buffer whose length is not 24 is rejected and changes no
  state.  A four-byte buffer of kind \<open>IPC_MSG_SET_WORKLOAD\<close> is accepted by the
  compute core: the workload changes from 1 to 6 and both accumulators are
  cleared.
\<close>

theorem short_buffer_counterexample:
  "length [2, 6, 0, 0 :: u8] \<noteq> 24 \<and>
   ep_recv [2, 6, 0, 0] busy_state =
     Inr ([LogReceived 2 4, LogWorkloadChanged 6],
          busy_state\<lparr> current_workload := 6, total_work_cycles := 0, work_iterations := 0 \<rparr>) \<and>
   current_workload busy_state = 1 \<and>
   total_work_cycles busy_state = 1280 \<and>
   work_iterations busy_state = 10"
  using ep_recv_by_kind [of "[2, 6, 0, 0]" busy_state]
  by (simp add: busy_state_simps IPC_MSG_SET_WORKLOAD_def)

text \<open>
  C2, amended.  Neither callback tests the length; it is only logged.  A buffer
  of any length that holds the kind and workload bytes is handled by its kind
  byte alone.  On the compute core the kind \<open>IPC_MSG_SET_WORKLOAD\<close> sets the
  workload and clears the accumulators, and every other kind is logged as
  unknown and leaves the state as it was.  On the reporting core a kind other
  than \<open>IPC_MSG_STATS\<close> and \<open>IPC_MSG_AUDIO_DATA\<close> leaves the state as it was.
\<close>

theorem length_is_not_checked:
  assumes "2 \<le> length data"
  shows "ep_recv data st =
           Inr (if data ! 0 = IPC_MSG_SET_WORKLOAD
                then ([LogReceived (data ! 0) (length data), LogWorkloadChanged (ucast (data ! 1))],
                      st\<lparr> current_workload := ucast (data ! 1),
                          total_work_cycles := 0, work_iterations := 0 \<rparr>)
                else ([LogReceived (data ! 0) (length data), LogUnknownType (data ! 0)], st)) \<and>
         (data ! 0 \<noteq> IPC_MSG_STATS \<and> data ! 0 \<noteq> IPC_MSG_AUDIO_DATA \<longrightarrow>
            cpuapp_ep_recv data ast = Inr ([LogReceived (data ! 0) (length data)], ast))"
proof -
  from assms have "0 < length data" by auto
  then have "data ! 0 \<noteq> IPC_MSG_STATS \<and> data ! 0 \<noteq> IPC_MSG_AUDIO_DATA \<longrightarrow>
      cpuapp_ep_recv data ast = Inr ([LogReceived (data ! 0) (length data)], ast)"
    by (simp add: cpuapp_ep_recv_def bind_err_def load_u8_nth layout_defs
        del: length_greater_0_conv)
  with ep_recv_by_kind [OF assms] show ?thesis
    by simp
qed

theorem length_is_not_checked_witness:
  "2 \<le> length [2, 6, 0, 0 :: u8] \<and>
   ep_recv [2, 6, 0, 0] busy_state =
     Inr ([LogReceived 2 4, LogWorkloadChanged 6],
          busy_state\<lparr> current_workload := 6, total_work_cycles := 0, work_iterations := 0 \<rparr>) \<and>
   [2, 6, 0, 0 :: u8] ! 0 \<noteq> IPC_MSG_STATS \<and> [2, 6, 0, 0 :: u8] ! 0 \<noteq> IPC_MSG_AUDIO_DATA \<and>
   cpuapp_ep_recv [2, 6, 0, 0] cpuapp_initial = Inr ([LogReceived 2 4], cpuapp_initial)"
proof -
  have len: "2 \<le> length [2, 6, 0, 0 :: u8]"
    by simp
  show ?thesis
    using length_is_not_checked [OF len, of busy_state cpuapp_initial]
    by (simp add: IPC_MSG_SET_WORKLOAD_def IPC_MSG_STATS_def IPC_MSG_AUDIO_DATA_def)
qed

section \<open>Switching the workload\<close>

text \<open>
  C3, as stated: a \<open>SetWorkload\<close> message that carries the active kind leaves
  the accumulators as they are.  With matrix multiplication active, 1280 cycles
  and 10 iterations counted, the message for matrix multiplication clears both.
\<close>

theorem same_kind_resets_counterexample:
  "current_workload busy_state = 1 \<and>
   total_work_cycles busy_state = 1280 \<and>
   work_iterations busy_state = 10 \<and>
   ep_recv (set_workload_bytes 1) busy_state =
     Inr ([LogReceived 2 24, LogWorkloadChanged 1],
          busy_state\<lparr> current_workload := 1, total_work_cycles := 0, work_iterations := 0 \<rparr>)"
  using ep_recv_by_kind [of "set_workload_bytes 1" busy_state]
  by (simp add: busy_state_simps set_workload_bytes_def IPC_MSG_SET_WORKLOAD_def)

text \<open>
  C3, amended.  On every \<open>SetWorkload\<close> message the callback stores the
  received kind and clears both accumulators, whether or not the kind differs
  from the active one.
\<close>

theorem set_workload_always_resets:
  assumes "2 \<le> length data" and "data ! 0 = IPC_MSG_SET_WORKLOAD"
  shows "\<exists>log st'. ep_recv data st = Inr (log, st') \<and>
           current_workload st' = ucast (data ! 1) \<and>
           total_work_cycles st' = 0 \<and> work_iterations st' = 0"
  using assms by (simp add: ep_recv_by_kind)

theorem set_workload_always_resets_witness:
  "2 \<le> length (set_workload_bytes 1) \<and>
   set_workload_bytes 1 ! 0 = IPC_MSG_SET_WORKLOAD \<and>
   (\<exists>log st'. ep_recv (set_workload_bytes 1) busy_state = Inr (log, st') \<and>
        current_workload st' = 1 \<and>
        total_work_cycles st' = 0 \<and> work_iterations st' = 0)"
proof -
  have a: "2 \<le> length (set_workload_bytes 1)"
    by (simp add: set_workload_bytes_def)
  have b: "set_workload_bytes 1 ! 0 = IPC_MSG_SET_WORKLOAD"
    by (simp add: set_workload_bytes_def)
  have c: "set_workload_bytes 1 ! Suc 0 = 1"
    by (simp add: set_workload_bytes_def)
  show ?thesis
    using a b set_workload_always_resets [OF a b, of busy_state] by (simp add: c)
qed


section \<open>The two computed divisors\<close>

lemma sint_s32_self:
  "- 2147483648 \<le> k \<Longrightarrow> k < 2147483648 \<Longrightarrow> sint (word_of_int k :: s32) = k"
  by (simp add: sint_sbintrunc' signed_take_bit_int_eq_self)

lemma sint_promoted: "sint (scast (v :: s16) :: s32) = sint v"
  by (simp add: sint_up_scast is_up)

lemma sint_s16_bounds: "- 32768 \<le> sint (v :: s16)" "sint (v :: s16) < 32768"
  using sint_ge [of v] sint_lt [of v] by simp_all

text \<open>One term of the power sum: the square of a sample, divided by 256.\<close>

lemma square_term_bounds:
  fixes v :: s16
  shows "0 \<le> sint (cdiv32 (scast v * scast v) 256) \<and>
         sint (cdiv32 (scast v * scast v) 256) \<le> 4194304"
proof -
  define x where "x = sint v * sint v"
  have "\<bar>sint v\<bar> \<le> 32768"
    using sint_s16_bounds [of v] by simp
  then have "\<bar>sint v\<bar> * \<bar>sint v\<bar> \<le> 32768 * 32768"
    by (intro mult_mono) simp_all
  then have b: "0 \<le> x" "x \<le> 1073741824"
    by (simp_all add: x_def abs_mult_self_eq)
  then have "signed_take_bit 31 x = x"
    by (intro signed_take_bit_int_eq_self) simp_all
  then have "sint (scast v * scast v :: s32) = x"
    by (simp add: sint_word_ariths sint_promoted x_def)
  then have "cdiv32 (scast v * scast v) 256 = word_of_int (x sdiv 256)"
    by (simp add: cdiv32_def)
  moreover have "x sdiv 256 = x div 256"
    using b by (simp add: signed_divide_int_def sgn_if)
  moreover have "0 \<le> x div 256" "x div 256 \<le> 4194304"
    using b by simp_all
  ultimately show ?thesis
    by (simp add: sint_s32_self)
qed

lemma power_sum_bounds:
  fixes fe :: "s16 list"
  defines "step \<equiv> (\<lambda>n k (power :: s32). let val = scast (fe ! (n - k)) :: s32
                                   in power + cdiv32 (val * val) 256)"
  assumes "0 \<le> sint acc" and "sint acc + 4194304 * int (length ks) < 2147483648"
  shows "0 \<le> sint (fold (step n) ks acc) \<and>
         sint (fold (step n) ks acc) \<le> sint acc + 4194304 * int (length ks)"
  using assms(2,3)
proof (induction ks arbitrary: acc)
  case Nil
  then show ?case by simp
next
  case (Cons k ks)
  let ?t = "cdiv32 (scast (fe ! (n - k)) * scast (fe ! (n - k))) 256 :: s32"
  have t: "0 \<le> sint ?t" "sint ?t \<le> 4194304"
    using square_term_bounds [of "fe ! (n - k)"] by simp_all
  have "signed_take_bit 31 (sint acc + sint ?t) = sint acc + sint ?t"
    using t Cons.prems by (intro signed_take_bit_int_eq_self) simp_all
  then have s: "sint (step n k acc) = sint acc + sint ?t"
    by (simp add: step_def Let_def sint_word_ariths)
  with t Cons.prems have "0 \<le> sint (step n k acc)"
    and "sint (step n k acc) + 4194304 * int (length ks) < 2147483648"
    by simp_all
  from Cons.IH [OF this] s t show ?case
    by simp
qed

text \<open>
  \<open>power\<close> is at least 1 for every reference buffer: the sum of at most 256
  terms does not overflow and is not negative.
\<close>

lemma nlms_power_positive: "0 < sint (nlms_power fe n)"
proof -
  define total where "total = fold (\<lambda>k power. let val = scast (fe ! (n - k)) :: s32
                                   in power + cdiv32 (val * val) 256) (taps_upto n) (0 :: s32)"
  have len: "length (taps_upto n) \<le> 256"
    by (simp add: taps_upto_def AEC_FILTER_TAPS_def)
  have "0 \<le> sint total \<and> sint total \<le> sint (0 :: s32) + 4194304 * int (length (taps_upto n))"
    unfolding total_def using len by (intro power_sum_bounds) simp_all
  with len have b: "0 \<le> sint total" "sint total \<le> 1073741824"
    by simp_all
  then have q: "sint total sdiv 256 = sint total div 256"
    by (simp add: signed_divide_int_def sgn_if)
  from b have qb: "0 \<le> sint total div 256" "sint total div 256 \<le> 4194304"
    by simp_all
  then have "sint (cdiv32 total 256) = sint total div 256"
    by (simp add: cdiv32_def q sint_s32_self)
  moreover have "signed_take_bit 31 (sint total div 256 + 1) = sint total div 256 + 1"
    using qb by (intro signed_take_bit_int_eq_self) simp_all
  ultimately have "sint (cdiv32 total 256 + 1) = sint total div 256 + 1"
    by (simp add: sint_word_ariths)
  with qb have "0 < sint (cdiv32 total 256 + 1)"
    by simp
  then show ?thesis
    by (simp add: nlms_power_def Let_def AEC_FILTER_TAPS_def total_def)
qed

text \<open>The divisor of the gain is taken only for a positive \<open>rms\<close>.\<close>

lemma agc_divisor_nonzero: "0 < sint (r :: s32) \<Longrightarrow> r + 1 \<noteq> 0"
proof
  assume "0 < sint r" and "r + 1 = 0"
  then have "r = - 1" by (simp add: add_eq_0_iff2)
  with \<open>0 < sint r\<close> show False by simp
qed

section \<open>The filter state\<close>

text \<open>What one tap update, one adaptation and one frame do to the coefficients.\<close>

lemma limit_coeff_in_range: "coeff_in_range (limit_coeff c)"
  by (simp add: limit_coeff_def coeff_in_range_def Let_def word_sless_alt)

lemma update_tap_nth_other:
  "j \<noteq> k \<Longrightarrow> update_tap uf fe n k flt ! j = flt ! j"
  by (simp add: update_tap_def Let_def)

lemma update_tap_keeps_range:
  assumes "list_all coeff_in_range flt"
  shows "list_all coeff_in_range (update_tap uf fe n k flt)"
proof -
  have "set (update_tap uf fe n k flt)
          \<subseteq> insert (limit_coeff (ucast (scast (flt ! k) + cdiv32 (uf * scast (fe ! (n - k))) 256)))
                     (set flt)"
    by (simp add: update_tap_def Let_def set_update_subset_insert)
  with assms limit_coeff_in_range show ?thesis
    by (auto simp: list_all_iff)
qed

lemma fold_update_tap_keeps_range:
  "list_all coeff_in_range flt \<Longrightarrow> list_all coeff_in_range (fold (update_tap uf fe n) ks flt)"
  by (induction ks arbitrary: flt) (simp_all add: update_tap_keeps_range)

lemma fold_update_tap_nth_other:
  "j \<notin> set ks \<Longrightarrow> fold (update_tap uf fe n) ks flt ! j = flt ! j"
  by (induction ks arbitrary: flt) (simp_all add: update_tap_nth_other)

lemma nlms_update_keeps_range:
  "list_all coeff_in_range flt \<Longrightarrow> list_all coeff_in_range (nlms_update err fe n flt)"
  by (simp add: nlms_update_def Let_def fold_update_tap_keeps_range)

lemma nlms_update_nth_above:
  "n < j \<Longrightarrow> nlms_update err fe n flt ! j = flt ! j"
  by (simp add: nlms_update_def Let_def taps_upto_def fold_update_tap_nth_other)

lemma aec_sample_keeps_range:
  "list_all coeff_in_range (fst s) \<Longrightarrow> list_all coeff_in_range (fst (aec_sample po fe n s))"
  by (cases s) (simp add: aec_sample_def Let_def nlms_update_keeps_range)

lemma aec_sample_nth_above:
  "n mod 2 = 0 \<longrightarrow> n < j \<Longrightarrow> fst (aec_sample po fe n s) ! j = fst s ! j"
  by (cases s) (simp add: aec_sample_def Let_def nlms_update_nth_above)

lemma fold_aec_sample_keeps_range:
  "list_all coeff_in_range (fst s) \<Longrightarrow>
   list_all coeff_in_range (fst (fold (aec_sample po fe) ns s))"
  by (induction ns arbitrary: s) (simp_all add: aec_sample_keeps_range)

lemma fold_aec_sample_nth_above:
  "\<forall>n\<in>set ns. n mod 2 = 0 \<longrightarrow> n < j \<Longrightarrow>
   fst (fold (aec_sample po fe) ns s) ! j = fst s ! j"
  by (induction ns arbitrary: s) (simp_all add: aec_sample_nth_above)

lemma aec_loop_keeps_range:
  "list_all coeff_in_range flt \<Longrightarrow> list_all coeff_in_range (fst (aec_loop po fe flt))"
  by (simp add: aec_loop_def fold_aec_sample_keeps_range)

text \<open>
  The update runs for even \<open>n\<close> below 128 and touches the taps up to \<open>n\<close>, so
  the taps from 127 on are never written.
\<close>

lemma aec_loop_nth_above:
  assumes "127 \<le> j"
  shows "fst (aec_loop po fe flt) ! j = flt ! j"
proof -
  have "\<forall>n\<in>set [0..<FRAME_SIZE]. n mod 2 = 0 \<longrightarrow> n < j"
  proof (intro ballI impI)
    fix n assume "n \<in> set [0..<FRAME_SIZE]" and even: "n mod 2 = 0"
    then have "n < 128" by (simp add: FRAME_SIZE_def)
    with even have "n \<noteq> 127" by presburger
    with \<open>n < 128\<close> assms show "n < j" by simp
  qed
  from fold_aec_sample_nth_above [OF this] show ?thesis
    by (simp add: aec_loop_def)
qed

lemma aec_filter_after:
  "aec_filter (snd (snd (workload_audio_pipeline_aec junk s e st))) =
     fst (aec_loop (processed_output (stages_1_to_5 junk (work_result st)))
            (simulate_far_end (work_result st) (far_end_buffer st)) (aec_filter st))"
  by (simp add: workload_audio_pipeline_aec_def Let_def split: prod.splits)

lemma far_end_buffer_after:
  "far_end_buffer (snd (snd (workload_audio_pipeline_aec junk s e st))) =
     simulate_far_end (work_result st) (far_end_buffer st)"
  by (simp add: workload_audio_pipeline_aec_def Let_def split: prod.splits)

lemma fold_far_end_nth_other:
  "i \<notin> set ns \<Longrightarrow> fold (\<lambda>i fe. fe[i := far_end_sample wr i]) ns fe ! i = fe ! i"
  by (induction ns arbitrary: fe) auto

lemma simulate_far_end_nth_above:
  "128 \<le> i \<Longrightarrow> simulate_far_end wr fe ! i = fe ! i"
  by (simp add: simulate_far_end_def FRAME_SIZE_def AEC_FILTER_TAPS_def fold_far_end_nth_other)

lemma frame_keeps_range:
  "list_all coeff_in_range (aec_filter st) \<Longrightarrow>
   list_all coeff_in_range (aec_filter (snd (snd (workload_audio_pipeline_aec junk s e st))))"
  by (simp add: aec_filter_after aec_loop_keeps_range)

lemma initial_in_range: "list_all coeff_in_range (aec_filter initial_state)"
  by (simp add: initial_state_def list_all_iff coeff_in_range_def)

lemma ep_recv_keeps_filter:
  "ep_recv data st = Inr (log, st') \<Longrightarrow>
   aec_filter st' = aec_filter st \<and> far_end_buffer st' = far_end_buffer st"
  by (auto simp: ep_recv_def bind_err_def split: sum.splits if_splits)

lemma adapted_state_simps:
  "current_workload adapted_state = 7"
  "total_work_cycles adapted_state = 2560"
  "work_iterations adapted_state = 20"
  "aec_filter adapted_state ! 0 = 362"
  by (simp_all add: adapted_state_def WORKLOAD_AUDIO_PIPELINE_AEC_def AEC_FILTER_TAPS_def)

lemma fold_far_end_length:
  "length (fold (\<lambda>i fe. fe[i := far_end_sample wr i]) ns fe) = length fe"
  by (induction ns arbitrary: fe) auto

lemma fold_far_end_nth_below:
  "i < n \<Longrightarrow> i < length fe \<Longrightarrow>
   fold (\<lambda>i fe. fe[i := far_end_sample wr i]) [0..<n] fe ! i = far_end_sample wr i"
proof (induction n)
  case 0
  then show ?case by simp
next
  case (Suc n)
  show ?case
  proof (cases "i = n")
    case True
    with Suc.prems show ?thesis
      by (simp add: fold_far_end_length)
  next
    case False
    with Suc show ?thesis
      by simp
  qed
qed

lemma simulate_far_end_nth_below:
  "i < 128 \<Longrightarrow> i < length fe \<Longrightarrow> simulate_far_end wr fe ! i = far_end_sample wr i"
  by (simp add: simulate_far_end_def FRAME_SIZE_def AEC_FILTER_TAPS_def fold_far_end_nth_below)

text \<open>
  After the first frame the reference history holds the simulated far-end
  signal: its second sample is \<open>(1 * 29 + 0) & 0x7FF\<close>.
\<close>

lemma after_one_frame_simps:
  "current_workload after_one_frame = WORKLOAD_AUDIO_PIPELINE_AEC"
  "far_end_buffer after_one_frame ! Suc 0 = 29"
  by (simp_all add: after_one_frame_def workload_audio_pipeline_aec_def Let_def
      initial_state_def simulate_far_end_nth_below far_end_sample_def AEC_FILTER_TAPS_def
      split: prod.splits)

text \<open>
  A frame works on the stored coefficients.  With no error there is nothing
  to add: the update factor is zero, every tap is written back with the value
  it held, and the filter comes out as it went in.
\<close>

lemma store_promoted: "(ucast (scast (x :: s16) :: s32) :: s16) = x"
  by (rule bit_word_eqI) (auto simp: bit_simps)

lemma limit_coeff_id: "coeff_in_range c \<Longrightarrow> limit_coeff c = c"
  by (simp add: limit_coeff_def coeff_in_range_def Let_def word_sless_alt)

lemma cdiv32_zero: "cdiv32 0 b = 0"
  by (simp add: cdiv32_def)

lemma update_tap_zero_update:
  assumes "cdiv32 (uf * scast (fe ! (n - k))) 256 = 0" and "coeff_in_range (flt ! k)"
  shows "update_tap uf fe n k flt = flt"
  using assms by (simp add: update_tap_def Let_def store_promoted limit_coeff_id)

lemma update_tap_zero_factor:
  assumes "list_all coeff_in_range flt"
  shows "update_tap 0 fe n k flt = flt"
proof (cases "k < length flt")
  case True
  with assms have "coeff_in_range (flt ! k)"
    by (simp add: list_all_length)
  then show ?thesis
    by (simp add: update_tap_zero_update cdiv32_zero)
next
  case False
  then have "length flt \<le> k"
    by simp
  then show ?thesis
    by (simp add: update_tap_def Let_def list_update_beyond)
qed

lemma fold_update_tap_zero_factor:
  "list_all coeff_in_range flt \<Longrightarrow> fold (update_tap 0 fe n) ks flt = flt"
  by (induction ks) (simp_all add: update_tap_zero_factor)

lemma nlms_update_zero_error:
  "list_all coeff_in_range flt \<Longrightarrow> nlms_update 0 fe n flt = flt"
  by (simp add: nlms_update_def Let_def cdiv32_zero fold_update_tap_zero_factor)

lemma aec_sample_zero_error:
  assumes "list_all coeff_in_range flt" and "po ! n = ucast (echo_est flt fe n)"
  shows "fst (aec_sample po fe n (flt, es)) = flt"
  using assms by (simp add: aec_sample_def Let_def nlms_update_zero_error)

lemma fold_aec_sample_zero_error:
  assumes "list_all coeff_in_range flt"
    and "list_all (\<lambda>n. po ! n = ucast (echo_est flt fe n)) ns"
  shows "fst (fold (aec_sample po fe) ns (flt, es)) = flt"
  using assms(2)
proof (induction ns arbitrary: es)
  case Nil
  then show ?case by simp
next
  case (Cons n ns)
  obtain es' where step: "aec_sample po fe n (flt, es) = (flt, es')"
    using aec_sample_zero_error [OF assms(1), of po n fe es] Cons.prems
    by (cases "aec_sample po fe n (flt, es)") simp
  with Cons show ?case
    by simp
qed

lemma aec_loop_zero_error:
  assumes "list_all coeff_in_range flt"
    and "list_all (\<lambda>n. po ! n = ucast (echo_est flt fe n)) [0..<FRAME_SIZE]"
  shows "fst (aec_loop po fe flt) = flt"
  using assms by (simp add: aec_loop_def fold_aec_sample_zero_error)

text \<open>
  Tap 126 is written once in a frame, by the adaptation at \<open>n = 126\<close>, and
  what is added there is a multiple of the reference sample 0.  When that
  sample is zero the tap is written back with the value it held.
\<close>

lemma nlms_update_last_tap:
  assumes "fe ! 0 = 0" and "coeff_in_range (flt ! 126)"
  shows "nlms_update err fe 126 flt ! 126 = flt ! 126"
proof -
  define uf where "uf = cdiv32 (scast (16 :: s16) * scast err) (nlms_power fe 126)"
  define flt1 where "flt1 = fold (update_tap uf fe 126) [0..<126] flt"
  have taps: "taps_upto 126 = [0..<126] @ [126]"
    using upt_Suc_append [of 0 126] by (simp add: taps_upto_def AEC_FILTER_TAPS_def)
  have same: "flt1 ! 126 = flt ! 126"
    unfolding flt1_def by (rule fold_update_tap_nth_other) simp
  have "cdiv32 (uf * scast (fe ! (126 - 126))) 256 = 0"
    using assms(1) by (simp add: cdiv32_def)
  moreover have "coeff_in_range (flt1 ! 126)"
    using same assms(2) by simp
  ultimately have "update_tap uf fe 126 126 flt1 = flt1"
    by (rule update_tap_zero_update)
  then show ?thesis
    using same by (simp add: nlms_update_def Let_def taps flt1_def uf_def)
qed

lemma aec_loop_last_tap:
  assumes "fe ! 0 = 0" and "coeff_in_range (flt ! 126)"
  shows "fst (aec_loop po fe flt) ! 126 = flt ! 126"
proof -
  define s1 where "s1 = fold (aec_sample po fe) [0..<126] (flt, [])"
  have frame: "[0..<FRAME_SIZE] = [0..<126] @ [126, 127]"
    using upt_Suc_append [of 0 126] upt_Suc_append [of 0 127] by (simp add: FRAME_SIZE_def)
  have before: "fst s1 ! 126 = flt ! 126"
    unfolding s1_def using fold_aec_sample_nth_above [of "[0..<126]" 126 po fe "(flt, [])"]
    by simp
  obtain flt1 es1 where s1: "s1 = (flt1, es1)" by (cases s1)
  with before assms(2) have r: "coeff_in_range (flt1 ! 126)" and e: "flt1 ! 126 = flt ! 126"
    by simp_all
  have "fst (aec_sample po fe 127 (aec_sample po fe 126 (flt1, es1))) ! 126 = flt1 ! 126"
    using nlms_update_last_tap [OF assms(1) r]
    by (simp add: aec_sample_def Let_def)
  with e show ?thesis
    by (simp add: aec_loop_def frame s1_def [symmetric] s1)
qed

lemma frame_last_tap:
  assumes "work_result st AND 0x7FF = 0" and "0 < length (far_end_buffer st)"
    and "coeff_in_range (aec_filter st ! 126)"
  shows "aec_filter (snd (snd (workload_audio_pipeline_aec junk s e st))) ! 126
           = aec_filter st ! 126"
proof -
  have "simulate_far_end (work_result st) (far_end_buffer st) ! 0 = 0"
    using assms(1,2) by (simp add: simulate_far_end_nth_below far_end_sample_def)
  from aec_loop_last_tap [OF this assms(3)] show ?thesis
    by (simp add: aec_filter_after)
qed

text \<open>The example filter: its echo estimate is the reference sample itself.\<close>

lemma fold_echo_zero_taps:
  "\<forall>k\<in>set ks. flt ! k = 0 \<Longrightarrow>
   fold (\<lambda>k est. est + cdiv32 (scast (flt ! k) * scast (fe ! (n - k))) 256) ks acc = acc"
  by (induction ks arbitrary: acc) (simp_all add: cdiv32_zero)

lemma echo_filter_estimate:
  assumes "n < FRAME_SIZE"
  shows "echo_est echo_filter steady_reference n = 5"
proof -
  have taps: "taps_upto n = 0 # [1..<Suc n]"
    using assms by (simp add: taps_upto_def AEC_FILTER_TAPS_def FRAME_SIZE_def upt_rec [of 0])
  have rest: "\<forall>k\<in>set [1..<Suc n]. echo_filter ! k = 0"
    using assms by (auto simp: echo_filter_def AEC_FILTER_TAPS_def FRAME_SIZE_def)
  have first: "cdiv32 (scast (echo_filter ! 0) * scast (steady_reference ! (n - 0))) 256 = 5"
    using assms
    by (simp add: echo_filter_def steady_reference_def AEC_FILTER_TAPS_def FRAME_SIZE_def
        cdiv32_def signed_divide_int_def)
  show ?thesis
    using fold_echo_zero_taps [OF rest, of steady_reference n] first
    by (simp add: echo_est_def taps)
qed

lemma echo_filter_simps:
  "list_all coeff_in_range echo_filter"
  "list_all (\<lambda>n. steady_near_end ! n = ucast (echo_est echo_filter steady_reference n))
     [0..<FRAME_SIZE]"
  "echo_filter ! 0 = 256"
proof -
  show "list_all coeff_in_range echo_filter"
    using set_update_subset_insert [of "replicate AEC_FILTER_TAPS (0 :: s16)" 0 256]
    by (auto simp: echo_filter_def list_all_iff coeff_in_range_def)
  show "list_all (\<lambda>n. steady_near_end ! n = ucast (echo_est echo_filter steady_reference n))
     [0..<FRAME_SIZE]"
    by (simp add: list_all_iff echo_filter_estimate steady_near_end_def)
  show "echo_filter ! 0 = 256"
    by (simp add: echo_filter_def AEC_FILTER_TAPS_def)
qed

lemma late_tap_state_simps:
  "work_result late_tap_state AND 0x7FF = 0"
  "0 < length (far_end_buffer late_tap_state)"
  "aec_filter late_tap_state ! 126 = 362"
  "coeff_in_range (aec_filter late_tap_state ! 126)"
  by (simp_all add: late_tap_state_def initial_state_def AEC_FILTER_TAPS_def coeff_in_range_def)

text \<open>
  C4, as stated: the filter state is reset to zero when the dispatcher switches
  away from the active AEC workload.  After the first AEC frame the second
  reference sample is 29; the message that selects \<open>WORKLOAD_IDLE\<close> changes
  the workload and clears the accumulators, and the sample is still 29.  In
  the same way a coefficient that has adapted, 362 in \<open>adapted_state\<close>, is
  still 362 after the switch.
\<close>

theorem filter_survives_switch_counterexample:
  "current_workload after_one_frame = WORKLOAD_AUDIO_PIPELINE_AEC \<and>
   far_end_buffer after_one_frame ! 1 = 29 \<and>
   ep_recv (set_workload_bytes 0) after_one_frame =
     Inr ([LogReceived 2 24, LogWorkloadChanged WORKLOAD_IDLE],
          after_one_frame\<lparr> current_workload := WORKLOAD_IDLE,
                           total_work_cycles := 0, work_iterations := 0 \<rparr>) \<and>
   far_end_buffer (after_one_frame\<lparr> current_workload := WORKLOAD_IDLE,
                                   total_work_cycles := 0, work_iterations := 0 \<rparr>) ! 1 = 29 \<and>
   current_workload adapted_state = WORKLOAD_AUDIO_PIPELINE_AEC \<and>
   aec_filter adapted_state ! 0 = 362 \<and>
   ep_recv (set_workload_bytes 0) adapted_state =
     Inr ([LogReceived 2 24, LogWorkloadChanged WORKLOAD_IDLE],
          adapted_state\<lparr> current_workload := WORKLOAD_IDLE,
                         total_work_cycles := 0, work_iterations := 0 \<rparr>) \<and>
   aec_filter (adapted_state\<lparr> current_workload := WORKLOAD_IDLE,
                              total_work_cycles := 0, work_iterations := 0 \<rparr>) ! 0 = 362"
  using ep_recv_by_kind [of "set_workload_bytes 0" adapted_state]
    ep_recv_by_kind [of "set_workload_bytes 0" after_one_frame]
  by (simp add: adapted_state_simps after_one_frame_simps set_workload_bytes_def
      IPC_MSG_SET_WORKLOAD_def WORKLOAD_IDLE_def WORKLOAD_AUDIO_PIPELINE_AEC_def)

text \<open>
  C4, amended.  The filter state is static storage, zero at program start, and
  nothing resets it.  The receive callback leaves the coefficients and the
  reference history as they are on every message, a switch away from the AEC
  workload included.  A frame is never a reset: it runs the adaptation loop on
  the stored coefficients.  A stored filter whose echo estimate is the near-end
  signal comes out of the loop exactly as stored; tap 126 keeps its stored
  value whenever the low eleven bits of \<open>work_result\<close> are zero; taps 127 to
  255 and the reference samples 128 to 255 are never written.  Only the first
  128 reference samples are replaced in each frame, by the simulated far-end
  signal.
\<close>

theorem filter_state_is_never_reset:
  "(ep_recv data st = Inr (log, st') \<longrightarrow>
      aec_filter st' = aec_filter st \<and> far_end_buffer st' = far_end_buffer st) \<and>
   aec_filter (snd (snd (workload_audio_pipeline_aec junk start_us end_us st))) =
     fst (aec_loop (processed_output (stages_1_to_5 junk (work_result st)))
            (simulate_far_end (work_result st) (far_end_buffer st)) (aec_filter st)) \<and>
   (list_all coeff_in_range flt \<and>
    list_all (\<lambda>n. po ! n = ucast (echo_est flt fe n)) [0..<FRAME_SIZE] \<longrightarrow>
      fst (aec_loop po fe flt) = flt) \<and>
   (work_result st AND 0x7FF = 0 \<and> 0 < length (far_end_buffer st) \<and>
    coeff_in_range (aec_filter st ! 126) \<longrightarrow>
      aec_filter (snd (snd (workload_audio_pipeline_aec junk start_us end_us st))) ! 126
        = aec_filter st ! 126) \<and>
   (127 \<le> k \<longrightarrow>
      aec_filter (snd (snd (workload_audio_pipeline_aec junk start_us end_us st))) ! k
        = aec_filter st ! k) \<and>
   (128 \<le> k \<longrightarrow>
      far_end_buffer (snd (snd (workload_audio_pipeline_aec junk start_us end_us st))) ! k
        = far_end_buffer st ! k)"
proof -
  have "list_all coeff_in_range flt \<and>
    list_all (\<lambda>n. po ! n = ucast (echo_est flt fe n)) [0..<FRAME_SIZE] \<longrightarrow>
      fst (aec_loop po fe flt) = flt"
    using aec_loop_zero_error [of flt po fe] by simp
  moreover have "work_result st AND 0x7FF = 0 \<and> 0 < length (far_end_buffer st) \<and>
    coeff_in_range (aec_filter st ! 126) \<longrightarrow>
      aec_filter (snd (snd (workload_audio_pipeline_aec junk start_us end_us st))) ! 126
        = aec_filter st ! 126"
    using frame_last_tap [of st junk start_us end_us] by simp
  moreover have "aec_filter (snd (snd (workload_audio_pipeline_aec junk start_us end_us st))) =
     fst (aec_loop (processed_output (stages_1_to_5 junk (work_result st)))
            (simulate_far_end (work_result st) (far_end_buffer st)) (aec_filter st))"
    by (rule aec_filter_after)
  moreover have "127 \<le> k \<longrightarrow>
      aec_filter (snd (snd (workload_audio_pipeline_aec junk start_us end_us st))) ! k
        = aec_filter st ! k"
    by (simp add: aec_filter_after aec_loop_nth_above)
  moreover have "128 \<le> k \<longrightarrow>
      far_end_buffer (snd (snd (workload_audio_pipeline_aec junk start_us end_us st))) ! k
        = far_end_buffer st ! k"
    by (simp add: far_end_buffer_after simulate_far_end_nth_above)
  moreover have "ep_recv data st = Inr (log, st') \<longrightarrow>
      aec_filter st' = aec_filter st \<and> far_end_buffer st' = far_end_buffer st"
    using ep_recv_keeps_filter [of data st log st'] by simp
  ultimately show ?thesis
    by (intro conjI)
qed

theorem filter_state_is_never_reset_witness:
  "ep_recv (set_workload_bytes 0) late_tap_state =
     Inr ([LogReceived 2 24, LogWorkloadChanged 0],
          late_tap_state\<lparr> current_workload := 0, total_work_cycles := 0, work_iterations := 0 \<rparr>) \<and>
   aec_filter (late_tap_state\<lparr> current_workload := 0, total_work_cycles := 0,
                               work_iterations := 0 \<rparr>) = aec_filter late_tap_state \<and>
   list_all coeff_in_range echo_filter \<and>
   list_all (\<lambda>n. steady_near_end ! n = ucast (echo_est echo_filter steady_reference n))
     [0..<FRAME_SIZE] \<and>
   fst (aec_loop steady_near_end steady_reference echo_filter) = echo_filter \<and>
   echo_filter ! 0 = 256 \<and>
   work_result late_tap_state AND 0x7FF = 0 \<and>
   0 < length (far_end_buffer late_tap_state) \<and>
   coeff_in_range (aec_filter late_tap_state ! 126) \<and>
   aec_filter (snd (snd (workload_audio_pipeline_aec zero_stack 0 1 late_tap_state))) ! 126 = 362 \<and>
   (127 :: nat) \<le> 200 \<and>
   aec_filter (snd (snd (workload_audio_pipeline_aec zero_stack 0 1 late_tap_state))) ! 200
     = aec_filter late_tap_state ! 200 \<and>
   (128 :: nat) \<le> 200 \<and>
   far_end_buffer (snd (snd (workload_audio_pipeline_aec zero_stack 0 1 late_tap_state))) ! 200
     = far_end_buffer late_tap_state ! 200"
proof -
  have recv: "ep_recv (set_workload_bytes 0) late_tap_state =
     Inr ([LogReceived 2 24, LogWorkloadChanged 0],
          late_tap_state\<lparr> current_workload := 0, total_work_cycles := 0, work_iterations := 0 \<rparr>)"
    using ep_recv_by_kind [of "set_workload_bytes 0" late_tap_state]
    by (simp add: set_workload_bytes_def IPC_MSG_SET_WORKLOAD_def)
  note t = filter_state_is_never_reset [of "set_workload_bytes 0" late_tap_state
        "[LogReceived 2 24, LogWorkloadChanged 0]"
        "late_tap_state\<lparr> current_workload := 0, total_work_cycles := 0, work_iterations := 0 \<rparr>"
        zero_stack 0 1 echo_filter steady_near_end steady_reference 200]
  show ?thesis
    using recv echo_filter_simps late_tap_state_simps
      t [THEN conjunct1] t [THEN conjunct2, THEN conjunct2]
    by simp
qed

lemma adapted_state_in_range: "list_all coeff_in_range (aec_filter adapted_state)"
  using set_update_subset_insert [of "replicate AEC_FILTER_TAPS (0 :: s16)" 0 362]
  by (auto simp: adapted_state_def initial_state_def list_all_iff coeff_in_range_def)

text \<open>
  C5.  Every coefficient lies in [-8192, 8192] after each update: the tap an
  update writes is in the range whatever it held and whatever was added, so
  an update keeps all coefficients in the range when they were in it before;
  so does a frame, and so does every sequence of frames, from the zeroed
  filter of the program start in particular.
\<close>

theorem coefficients_stay_in_range:
  "(k < length flt \<longrightarrow> coeff_in_range (update_tap update_factor fe n k flt ! k)) \<and>
   (list_all coeff_in_range flt \<longrightarrow>
      list_all coeff_in_range (update_tap update_factor fe n k flt)) \<and>
   (list_all coeff_in_range (aec_filter st) \<longrightarrow>
      list_all coeff_in_range
        (aec_filter (snd (snd (workload_audio_pipeline_aec junk start_us end_us st)))) \<and>
      list_all coeff_in_range (aec_filter (aec_frames frames st))) \<and>
   list_all coeff_in_range (aec_filter (aec_frames frames initial_state))"
proof -
  have seq: "list_all coeff_in_range (aec_filter s) \<Longrightarrow>
      list_all coeff_in_range (aec_filter (aec_frames frames s))" for s
    unfolding aec_frames_def
    by (induction frames arbitrary: s) (auto simp: frame_keeps_range)
  have "k < length flt \<longrightarrow> coeff_in_range (update_tap update_factor fe n k flt ! k)"
    by (simp add: update_tap_def Let_def limit_coeff_in_range)
  with seq [of st] seq [OF initial_in_range] frame_keeps_range [of st junk start_us end_us]
    update_tap_keeps_range [of flt update_factor fe n k]
  show ?thesis
    by simp
qed

theorem coefficients_stay_in_range_witness:
  "0 < length (aec_filter adapted_state) \<and>
   coeff_in_range (update_tap 1600 (far_end_buffer adapted_state) 0 0 (aec_filter adapted_state) ! 0) \<and>
   list_all coeff_in_range (aec_filter adapted_state) \<and>
   list_all coeff_in_range
     (update_tap 1600 (far_end_buffer adapted_state) 0 0 (aec_filter adapted_state)) \<and>
   list_all coeff_in_range (aec_filter initial_state) \<and>
   list_all coeff_in_range
     (aec_filter (snd (snd (workload_audio_pipeline_aec zero_stack 0 1 initial_state)))) \<and>
   list_all coeff_in_range
     (aec_filter (aec_frames [(zero_stack, 0, 1), (zero_stack, 5, 9)] initial_state))"
proof -
  have len: "0 < length (aec_filter adapted_state)"
    by (simp add: adapted_state_def AEC_FILTER_TAPS_def)
  show ?thesis
    using len initial_in_range adapted_state_in_range
      coefficients_stay_in_range [of 0 "aec_filter adapted_state" 1600
        "far_end_buffer adapted_state" 0 initial_state zero_stack 0 1
        "[(zero_stack, 0, 1), (zero_stack, 5, 9)]"]
    by simp
qed

section \<open>Gain and voice detection\<close>

lemma gain_of_stages: "gain (stages_1_to_5 junk wr) = agc_gain (rms (stages_1_to_5 junk wr))"
  by (simp add: stages_1_to_5_def Let_def split: prod.splits)

text \<open>
  The quotient is stored in an \<open>int16_t\<close> before it is limited.  For a small
  \<open>rms\<close> it does not fit: at \<open>rms = 1\<close> the quotient 256000 is stored as
  -6144 and the gain is the lower limit, not the upper one.
\<close>

lemma agc_gain_examples:
  "sint (agc_gain 1) = 64" "sint (agc_gain 999) = 512" "sint (agc_gain 1999) = 256"
  by (simp_all add: agc_gain_def cdiv32_def Let_def word_sless_alt signed_divide_int_def)

text \<open>
  C6.  Voice is declared present exactly when the frame energy exceeds 1000
  and the zero-crossing count is strictly between 10 and 80; the decision reads
  nothing but these two values of the frame, and it alone decides whether the
  routine sends a message.  With energy 1200, 20 crossings give voice and 5
  crossings do not.
\<close>

theorem vad_decision:
  "voice_detected e z = (1000 < sint e \<and> 10 < sint z \<and> sint z < 80) \<and>
   voice_detected 1200 20 \<and>
   \<not> voice_detected 1200 5 \<and>
   (fst (snd (workload_audio_pipeline junk start_us end_us st)) \<noteq> None) =
     voice_detected (frame_energy (stages_1_to_5 junk (work_result st)))
                    (zero_crossings (stages_1_to_5 junk (work_result st))) \<and>
   (fst (snd (workload_audio_pipeline_aec junk start_us end_us st)) \<noteq> None) =
     voice_detected (frame_energy (stages_1_to_5 junk (work_result st)))
                    (zero_crossings (stages_1_to_5 junk (work_result st)))"
  by (simp add: voice_detected_def word_sless_alt workload_audio_pipeline_def
      workload_audio_pipeline_aec_def transfer_audio_def transfer_audio_aec_def Let_def
      split: prod.splits)

text \<open>
  C7.  The gain the pipeline applies is \<open>agc_gain\<close> of the RMS of the gated
  signal, and for every strictly positive RMS it lies in [64, 512].
\<close>

theorem agc_gain_in_range:
  "gain (stages_1_to_5 junk wr) = agc_gain (rms (stages_1_to_5 junk wr)) \<and>
   (0 < sint r \<longrightarrow> 64 \<le> sint (agc_gain r) \<and> sint (agc_gain r) \<le> 512)"
  by (simp add: gain_of_stages agc_gain_def Let_def word_sless_alt)

theorem agc_gain_in_range_witness:
  "0 < sint (1999 :: s32) \<and> 64 \<le> sint (agc_gain 1999) \<and> sint (agc_gain 1999) \<le> 512"
  using agc_gain_in_range [of zero_stack 0 1999]
  by simp

section \<open>Telemetry arithmetic\<close>

text \<open>
  C8.  With a cycle delta of 15000000 the MIPS figure is 10, and at 128 MHz
  the CPU percentage for it is 7, as stated.  The percentage is meant to be
  100 whenever the MIPS figure exceeds 1280 (\<open>CPU% = (MIPS / MHz) * 100\<close>,
  \<open>Cap at 100%\<close>), but \<open>mips * 100\<close> is a 32-bit product and wraps before
  the cap is applied.  For a cycle delta of 64424509500000 the MIPS figure is
  42949673, the product wraps to 4 and the percentage is 0.  Such figures
  occur: when a workload switch clears \<open>total_work_cycles\<close> while
  \<open>prev_cycles\<close> still holds 7428573455232, the delta
  \<open>total_work_cycles - prev_cycles\<close> wraps, the MIPS figure is 1417339208 and
  the percentage is 0.
\<close>

theorem cpu_pct_overflow:
  "stats_mips 15000000 = 10 \<and>
   stats_cpu_pct (stats_mips 15000000) = 7 \<and>
   stats_mips 64424509500000 = 42949673 \<and>
   (1280 :: u32) < 42949673 \<and>
   stats_cpu_pct 42949673 = 0 \<and>
   stats_mips (0 - 7428573455232) = 1417339208 \<and>
   (1280 :: u32) < 1417339208 \<and>
   stats_cpu_pct 1417339208 = 0"
  by (simp add: stats_mips_def stats_cpu_pct_def RISCV_FREQ_MHZ_def)

text \<open>
  Where the product does not wrap the cap works as the comment says, and the
  result never exceeds 100.
\<close>

lemma stats_cpu_pct_saturates:
  assumes "1280 < mips" and "mips \<le> 42949672"
  shows "stats_cpu_pct mips = 100"
proof -
  from assms have lo: "1280 < unat mips" and hi: "unat mips \<le> 42949672"
    by (simp_all add: word_less_nat_alt word_le_nat_alt)
  from hi have "unat (mips * 100) = unat mips * 100"
    by (simp add: unat_word_ariths)
  then have "unat ((mips * 100) div 128) = unat mips * 100 div 128"
    by (simp add: unat_div)
  with lo have "100 < unat ((mips * 100) div 128)"
    by simp
  then have "(100 :: u32) < (mips * 100) div 128"
    by (simp add: word_less_nat_alt)
  then show ?thesis
    by (simp add: stats_cpu_pct_def RISCV_FREQ_MHZ_def)
qed

lemma stats_cpu_pct_le: "stats_cpu_pct mips \<le> 100"
  by (simp add: stats_cpu_pct_def Let_def not_less)

section \<open>Selectors outside the enumeration\<close>

lemma ucast_selector_unat: "unat (ucast (w :: u8) :: u32) = unat w"
  by (simp add: unsigned_ucast_eq take_bit_nat_eq_self
      less_trans [OF unsigned_less [of w, simplified]])

lemmas workload_defs = WORKLOAD_IDLE_def WORKLOAD_MATRIX_MULT_def WORKLOAD_SORTING_def
  WORKLOAD_FFT_SIM_def WORKLOAD_CRYPTO_SIM_def WORKLOAD_MIXED_def
  WORKLOAD_AUDIO_PIPELINE_def WORKLOAD_AUDIO_PIPELINE_AEC_def WORKLOAD_PROXIMITY_VAD_def
  WORKLOAD_CHEST_RESONANCE_def WORKLOAD_CLOTHING_RUSTLE_def
  WORKLOAD_SPATIAL_NOISE_CANCEL_def WORKLOAD_WIND_NOISE_REDUCTION_def
  WORKLOAD_NECKLACE_FULL_def

lemma invalid_selector_sleeps:
  assumes "13 < (w :: u8)"
  shows "execute_workload (ucast w) = SleepReturn 100 0"
proof -
  from assms have "13 < unat (ucast w :: u32)"
    by (simp add: word_less_nat_alt ucast_selector_unat)
  then have "(ucast w :: u32) \<noteq> of_nat k" if "k \<le> 13" for k
    using that by (auto simp: unat_of_nat)
  from this [of 1] this [of 2] this [of 3] this [of 4] this [of 5] this [of 6] this [of 7]
    this [of 8] this [of 9] this [of 10] this [of 11] this [of 12] this [of 13]
  show ?thesis
    by (simp add: execute_workload_def workload_defs)
qed

lemma idle_sleeps: "execute_workload WORKLOAD_IDLE = SleepReturn 100 0"
  by (simp add: execute_workload_def workload_defs)

text \<open>
  The loop of \<open>workload_thread\<close> tests for \<open>WORKLOAD_IDLE\<close> before it calls
  \<open>execute_workload\<close>: with a selector outside the enumeration the call is
  made, and the turn counts an iteration of zero cycles, which an idle turn
  does not.
\<close>

lemma invalid_selector_counts_iterations:
  assumes "13 < (w :: u8)" and "current_workload st = ucast w"
  shows "workload_thread_iter run st = (100, st\<lparr> work_iterations := work_iterations st + 1 \<rparr>)"
proof -
  from assms(1) have "0 < unat (ucast w :: u32)"
    by (simp add: word_less_nat_alt ucast_selector_unat)
  then have "(ucast w :: u32) \<noteq> 0"
    by auto
  with assms invalid_selector_sleeps [OF assms(1)] show ?thesis
    by (simp add: workload_thread_iter_def WORKLOAD_IDLE_def)
qed

text \<open>
  C9.  The receive callback stores any workload byte of a \<open>SetWorkload\<close>
  message; for a byte outside the fourteen values of the enumeration
  \<open>execute_workload\<close> takes the default branch, which is the body of the idle
  case: a sleep of 100 ms and a return of 0 cycles.
\<close>

theorem unknown_workload_runs_as_idle:
  assumes "2 \<le> length data" and "data ! 0 = IPC_MSG_SET_WORKLOAD" and "13 < data ! 1"
  shows "\<exists>log st'. ep_recv data st = Inr (log, st') \<and>
           current_workload st' = ucast (data ! 1) \<and>
           execute_workload (current_workload st') = SleepReturn 100 0 \<and>
           execute_workload (current_workload st') = execute_workload WORKLOAD_IDLE"
  using assms invalid_selector_sleeps [of "data ! 1"] idle_sleeps
  by (simp add: ep_recv_by_kind)

theorem unknown_workload_runs_as_idle_witness:
  "2 \<le> length (set_workload_bytes 200) \<and>
   set_workload_bytes 200 ! 0 = IPC_MSG_SET_WORKLOAD \<and>
   13 < set_workload_bytes 200 ! 1 \<and>
   (\<exists>log st'. ep_recv (set_workload_bytes 200) busy_state = Inr (log, st') \<and>
        current_workload st' = 200 \<and>
        execute_workload (current_workload st') = SleepReturn 100 0 \<and>
        execute_workload (current_workload st') = execute_workload WORKLOAD_IDLE)"
proof -
  have a: "2 \<le> length (set_workload_bytes 200)"
    by (simp add: set_workload_bytes_def)
  have b: "set_workload_bytes 200 ! 0 = IPC_MSG_SET_WORKLOAD"
    by (simp add: set_workload_bytes_def)
  have c: "set_workload_bytes 200 ! 1 = 200"
    by (simp add: set_workload_bytes_def)
  then have d: "13 < set_workload_bytes 200 ! 1"
    by simp
  show ?thesis
    using a b d unknown_workload_runs_as_idle [OF a b d, of busy_state]
    by (simp only: c) simp
qed

section \<open>The fifth payload word\<close>

lemma upt_4: "[0..<4] = [0, Suc 0, 2, 3]"
  by (simp add: upt_conv_Cons)

lemma replicate_4: "replicate 4 x = [x, x, x, x]"
  by (simp add: numeral_eq_Suc)

lemma le_bytes_4_length: "length (le_bytes 4 w) = 4"
  by (simp add: le_bytes_def)

lemma le_bytes_4_flag:
  "of_le_bytes (le_bytes 4 (if dt then 1 else 0 :: u32)) = (if dt then 1 else 0 :: u32)"
  by (simp add: le_bytes_def upt_4)

text \<open>The bytes of the message after the six assignments both routines make.\<close>

lemma audio_msg_common_bytes:
  "audio_msg_common wl out fe zc =
     Inr ([IPC_MSG_AUDIO_DATA, ucast wl, 0, 0]
          @ le_bytes 4 (pack_samples (out ! 0) (out ! 1))
          @ le_bytes 4 (pack_samples (out ! 2) (out ! 3))
          @ le_bytes 4 fe @ le_bytes 4 zc @ [0, 0, 0, 0])"
  by (simp add: audio_msg_common_def store_bytes_def bind_err_def le_bytes_def layout_defs
      replicate_4)

lemma fifth_word_zero:
  "\<exists>b. audio_pipeline_msg out fe zc = Inr b \<and> length b = 24 \<and>
       load_u32 b (msg_data_idx 4) = Inr 0"
  by (simp add: audio_pipeline_msg_def audio_msg_common_bytes le_bytes_4_length
      load_u32_def load_bytes_def layout_defs)

lemma fifth_word_flag:
  "\<exists>b. audio_pipeline_aec_msg out fe zc dt = Inr b \<and> length b = 24 \<and>
       load_u32 b (msg_data_idx 4) = Inr (if dt then 1 else 0)"
  using le_bytes_4_flag [of dt]
  by (simp add: audio_pipeline_aec_msg_def audio_msg_common_bytes le_bytes_4_length
      load_u32_def load_bytes_def store_bytes_def bind_err_def layout_defs)

lemma voiced_front_end_voice:
  "voice_detected (frame_energy voiced_front_end) (zero_crossings voiced_front_end)"
  by (simp add: voiced_front_end_def voice_detected_def word_sless_alt)

text \<open>
  C10.  Every message the routine without echo cancellation sends is built
  inside the 24 bytes and has zero in \<open>data[4]\<close>: the message is cleared and
  only \<open>data[0]\<close> to \<open>data[3]\<close> are assigned.  The routine with echo
  cancellation assigns \<open>data[4]\<close> too, the double-talk flag as 1 or 0.
\<close>

theorem fifth_payload_word:
  "(fst (snd (workload_audio_pipeline junk start_us end_us st)) = Some m \<longrightarrow>
      (\<exists>b. m = Inr b \<and> length b = 24 \<and> load_u32 b (msg_data_idx 4) = Inr 0)) \<and>
   (transfer_audio f = Some m \<longrightarrow>
      (\<exists>b. m = Inr b \<and> length b = 24 \<and> load_u32 b (msg_data_idx 4) = Inr 0)) \<and>
   (transfer_audio_aec f out dt = Some m' \<longrightarrow>
      (\<exists>b. m' = Inr b \<and> length b = 24 \<and>
           load_u32 b (msg_data_idx 4) = Inr (if dt then 1 else 0)))"
proof -
  have plain: "transfer_audio g = Some m \<longrightarrow>
      (\<exists>b. m = Inr b \<and> length b = 24 \<and> load_u32 b (msg_data_idx 4) = Inr 0)" for g
    using fifth_word_zero [of "processed_output g" "frame_energy g" "zero_crossings g"]
    by (auto simp: transfer_audio_def split: if_splits)
  have aec: "transfer_audio_aec f out dt = Some m' \<longrightarrow>
      (\<exists>b. m' = Inr b \<and> length b = 24 \<and>
           load_u32 b (msg_data_idx 4) = Inr (if dt then 1 else 0))"
    using fifth_word_flag [of out "frame_energy f" "zero_crossings f" dt]
    by (auto simp: transfer_audio_aec_def split: if_splits)
  have "fst (snd (workload_audio_pipeline junk start_us end_us st)) =
          transfer_audio (stages_1_to_5 junk (work_result st))"
    by (simp add: workload_audio_pipeline_def Let_def)
  with plain [of "stages_1_to_5 junk (work_result st)"] plain [of f] aec show ?thesis
    by simp
qed

theorem fifth_payload_word_witness:
  "transfer_audio voiced_front_end =
     Some (audio_pipeline_msg (processed_output voiced_front_end) 1200 20) \<and>
   (\<exists>b. audio_pipeline_msg (processed_output voiced_front_end) 1200 20 = Inr b \<and>
        length b = 24 \<and> load_u32 b (msg_data_idx 4) = Inr 0) \<and>
   transfer_audio_aec voiced_front_end (processed_output voiced_front_end) True =
     Some (audio_pipeline_aec_msg (processed_output voiced_front_end) 1200 20 True) \<and>
   (\<exists>b. audio_pipeline_aec_msg (processed_output voiced_front_end) 1200 20 True = Inr b \<and>
        length b = 24 \<and> load_u32 b (msg_data_idx 4) = Inr 1)"
proof -
  have fe: "frame_energy voiced_front_end = 1200" and zc: "zero_crossings voiced_front_end = 20"
    by (simp_all add: voiced_front_end_def)
  have t: "transfer_audio voiced_front_end =
      Some (audio_pipeline_msg (processed_output voiced_front_end) 1200 20)"
    using voiced_front_end_voice by (simp add: transfer_audio_def fe zc)
  have ta: "transfer_audio_aec voiced_front_end (processed_output voiced_front_end) True =
      Some (audio_pipeline_aec_msg (processed_output voiced_front_end) 1200 20 True)"
    using voiced_front_end_voice by (simp add: transfer_audio_aec_def fe zc)
  show ?thesis
    using t ta
      fifth_payload_word [of zero_stack 0 1 initial_state
        "audio_pipeline_msg (processed_output voiced_front_end) 1200 20"
        voiced_front_end "processed_output voiced_front_end" True
        "audio_pipeline_aec_msg (processed_output voiced_front_end) 1200 20 True"]
    by simp
qed

end
